theory Spec2Isabelle
  imports Main
begin

section \<open>JavaScript values used by gatsby-node.js\<close>

text \<open>
  The values that flow through the hooks are strings, \<open>null\<close> (what the content query
  returns for an absent frontmatter key) and \<open>undefined\<close> (an argument that a call leaves
  out, as in \<open>getTitle(node.frontmatter)\<close>). Arrays are lists; an array-valued
  frontmatter key that is absent is \<open>None\<close>, and a present array is truthy even when it
  is empty.
\<close>

datatype jsval = Undefined | Null | Str string

text \<open>JavaScript truthiness: \<open>undefined\<close>, \<open>null\<close> and the empty string are falsy.\<close>

fun truthy :: "jsval \<Rightarrow> bool" where
  "truthy (Str s) = (s \<noteq> [])"
| "truthy Undefined = False"
| "truthy Null = False"

text \<open>The operator \<open>a || b\<close>.\<close>

definition js_or :: "jsval \<Rightarrow> jsval \<Rightarrow> jsval" where
  "js_or a b = (if truthy a then a else b)"

text \<open>What a template literal \<open>`${v}`\<close> interpolates for a value.\<close>

fun tmpl :: "jsval \<Rightarrow> string" where
  "tmpl (Str s) = s"
| "tmpl Null = ''null''"
| "tmpl Undefined = ''undefined''"

datatype error = TypeError | Reason string

section \<open>String replacement\<close>

text \<open>
  \<open>s.replace(pat, '')\<close> with a string pattern removes the first occurrence of \<open>pat\<close> in
  \<open>s\<close>, scanning from the left; when there is none, \<open>s\<close> is returned as it is. The empty
  pattern occurs at position 0 and removing it changes nothing.
\<close>

fun replace_first :: "string \<Rightarrow> string \<Rightarrow> string" where
  "replace_first pat [] = []"
| "replace_first pat (c # cs) =
     (if take (length pat) (c # cs) = pat then drop (length pat) (c # cs)
      else c # replace_first pat cs)"

text \<open>
  \<open>s.replace(/\d+-/g, '')\<close>. The class \<open>\d\<close> is the ten ASCII digits. At a start
  position the greedy \<open>\d+\<close> first takes every digit it can, then the hyphen is tried;
  on failure the quantifier gives one digit back and the hyphen is tried again, down to
  one digit. \<open>backtrack k s\<close> is that loop with \<open>k\<close> digits taken, and returns the length
  of the match.
\<close>

definition is_digit :: "char \<Rightarrow> bool" where
  "is_digit c = (c \<in> set ''0123456789'')"

fun backtrack :: "nat \<Rightarrow> string \<Rightarrow> nat option" where
  "backtrack 0 s = None"
| "backtrack (Suc k) s =
     (if Suc k < length s \<and> s ! Suc k = CHR ''-'' then Some (Suc (Suc k))
      else backtrack k s)"

definition match_here :: "string \<Rightarrow> nat option" where
  "match_here s = backtrack (length (takeWhile is_digit s)) s"

text \<open>
  The global flag: matching restarts right after each match, and a character at which no
  match starts is copied. \<open>replace_from skip s\<close> has \<open>skip\<close> characters of the last match
  still to pass over; the replacement text is empty.
\<close>

fun replace_from :: "nat \<Rightarrow> string \<Rightarrow> string" where
  "replace_from skip [] = []"
| "replace_from (Suc k) (c # cs) = replace_from k cs"
| "replace_from 0 (c # cs) =
     (case match_here (c # cs) of
        Some n \<Rightarrow> replace_from (n - 1) cs
      | None \<Rightarrow> c # replace_from 0 cs)"

definition strip_numeric :: "string \<Rightarrow> string" where
  "strip_numeric s = replace_from 0 s"

section \<open>onCreateNode\<close>

record file_node =
  relativePath :: string
  ext :: string

record raw_node =
  node_id :: string
  node_parent :: string
  internal_type :: string

text \<open>A call \<open>createNodeField({ node, name, value })\<close>: the node's id, the name, the value.\<close>

datatype action = CreateNodeField string string string

definition slug_value :: "file_node \<Rightarrow> string" where
  "slug_value parent =
     (let v = replace_first (ext parent) (relativePath parent)
      in if v = ''index'' then [] else v)"

text \<open>
  \<open>getNode\<close> answers \<open>undefined\<close> for an id it does not know, and reading
  \<open>parent.relativePath\<close> then throws.
\<close>

definition onCreateNode :: "raw_node \<Rightarrow> (string \<Rightarrow> file_node option) \<Rightarrow> error + action list" where
  "onCreateNode node getNode =
     (if internal_type node = ''Mdx'' then
        (case getNode (node_parent node) of
           None \<Rightarrow> Inl TypeError
         | Some parent \<Rightarrow>
             Inr [CreateNodeField (node_id node) ''slug'' (''/'' @ slug_value parent),
                  CreateNodeField (node_id node) ''id'' (node_id node)])
      else Inr [])"

section \<open>createPages\<close>

record techMeta =
  tm_name :: jsval
  tm_value :: jsval

record frontmatter =
  title :: jsval
  metaTitle :: jsval
  metaDescription :: jsval
  langSwitcher :: "jsval list option"
  dbSwitcher :: "jsval list option"
  techMetaTitles :: "techMeta list option"
  techMetaDescriptions :: "techMeta list option"

record mdx_node =
  fields_slug :: jsval
  fields_id :: jsval
  node_frontmatter :: frontmatter

record page =
  path :: string
  component :: string
  ctx_id :: jsval
  seoTitle :: jsval
  seoDescription :: jsval

definition queryParam :: "jsval \<Rightarrow> jsval \<Rightarrow> string" where
  "queryParam lang db =
     (if truthy lang then tmpl lang @ (if truthy db then ''-'' else '''') else '''')
     @ (if truthy db then tmpl db else '''')"

definition getTitle :: "frontmatter \<Rightarrow> jsval \<Rightarrow> jsval \<Rightarrow> jsval" where
  "getTitle fm lang db =
     (let pageSeoTitle = js_or (metaTitle fm) (title fm)
      in if truthy lang \<or> truthy db then
           (let titleEntry =
                  (case techMetaTitles fm of
                     Some items \<Rightarrow> find (\<lambda>item. tm_name item = Str (queryParam lang db)) items
                   | None \<Rightarrow> None)
            in case titleEntry of Some e \<Rightarrow> tm_value e | None \<Rightarrow> pageSeoTitle)
         else pageSeoTitle)"

definition getDesc :: "frontmatter \<Rightarrow> jsval \<Rightarrow> jsval \<Rightarrow> jsval" where
  "getDesc fm lang db =
     (let pageSeoDesc = js_or (metaDescription fm) (title fm)
      in if truthy lang \<or> truthy db then
           (let descEntry =
                  (case techMetaDescriptions fm of
                     Some items \<Rightarrow> find (\<lambda>item. tm_name item = Str (queryParam lang db)) items
                   | None \<Rightarrow> None)
            in case descEntry of Some e \<Rightarrow> tm_value e | None \<Rightarrow> pageSeoDesc)
         else pageSeoDesc)"

text \<open>
  \<open>path.resolve\<close> of a directory that is absolute and normalised with a relative path
  that has no \<open>.\<close> or \<open>..\<close> segment; a leading \<open>./\<close> of the argument is dropped by the
  normalisation and left out here.
\<close>

definition path_resolve :: "string \<Rightarrow> string \<Rightarrow> string" where
  "path_resolve dir rel = (if dir = ''/'' then ''/'' @ rel else dir @ ''/'' @ rel)"

definition articleLayout :: "string \<Rightarrow> string" where
  "articleLayout cwd = path_resolve cwd ''src/layouts/articleLayout.tsx''"

text \<open>
  Effects: a run is the list of pages handed to \<open>createPage\<close>, in order, and the error
  thrown, if any. A throw ends the run; the pages created before it stay created.
\<close>

type_synonym run = "page list \<times> error option"

fun seq :: "run \<Rightarrow> run \<Rightarrow> run" where
  "seq (ps, Some e) r = (ps, Some e)"
| "seq (ps, None) (qs, r) = (ps @ qs, r)"

fun for_each :: "('a \<Rightarrow> run) \<Rightarrow> 'a list \<Rightarrow> run" where
  "for_each f [] = ([], None)"
| "for_each f (x # xs) = seq (f x) (for_each f xs)"

text \<open>
  \<open>node.fields.slug.replace(/\d+-/g, '')\<close>: calling \<open>replace\<close> on \<open>null\<close> or
  \<open>undefined\<close> throws a TypeError.
\<close>

definition slug_replace :: "jsval \<Rightarrow> error + string" where
  "slug_replace v = (case v of Str s \<Rightarrow> Inr (strip_numeric s) | _ \<Rightarrow> Inl TypeError)"

definition create_variant :: "string \<Rightarrow> mdx_node \<Rightarrow> string \<Rightarrow> jsval \<Rightarrow> jsval \<Rightarrow> run" where
  "create_variant cwd node suffix lang db =
     (case slug_replace (fields_slug node) of
        Inl e \<Rightarrow> ([], Some e)
      | Inr p \<Rightarrow>
          ([\<lparr>path = p @ suffix,
             component = articleLayout cwd,
             ctx_id = fields_id node,
             seoTitle = getTitle (node_frontmatter node) lang db,
             seoDescription = getDesc (node_frontmatter node) lang db\<rparr>], None))"

definition lang_db_page :: "string \<Rightarrow> mdx_node \<Rightarrow> jsval \<Rightarrow> jsval \<Rightarrow> run" where
  "lang_db_page cwd node lang db =
     create_variant cwd node (''-'' @ tmpl lang @ ''-'' @ tmpl db) lang db"

definition lang_page :: "string \<Rightarrow> mdx_node \<Rightarrow> jsval \<Rightarrow> run" where
  "lang_page cwd node lang = create_variant cwd node (''-'' @ tmpl lang) lang Null"

definition db_page :: "string \<Rightarrow> mdx_node \<Rightarrow> jsval \<Rightarrow> run" where
  "db_page cwd node db = create_variant cwd node (''-'' @ tmpl db) Null db"

definition base_page :: "string \<Rightarrow> mdx_node \<Rightarrow> page" where
  "base_page cwd node =
     \<lparr>path = (case fields_slug node of
                Str s \<Rightarrow> if s \<noteq> [] then strip_numeric s else ''/''
              | _ \<Rightarrow> ''/''),
      component = articleLayout cwd,
      ctx_id = fields_id node,
      seoTitle = getTitle (node_frontmatter node) Undefined Undefined,
      seoDescription = getDesc (node_frontmatter node) Undefined Undefined\<rparr>"

text \<open>The body of \<open>edges.forEach(({ node }) => ...)\<close>.\<close>

definition node_pages :: "string \<Rightarrow> mdx_node \<Rightarrow> run" where
  "node_pages cwd node =
     seq (case langSwitcher (node_frontmatter node) of
            Some ls \<Rightarrow>
              (case dbSwitcher (node_frontmatter node) of
                 Some ds \<Rightarrow> for_each (\<lambda>lang. for_each (\<lambda>db. lang_db_page cwd node lang db) ds) ls
               | None \<Rightarrow> for_each (\<lambda>lang. lang_page cwd node lang) ls)
          | None \<Rightarrow> ([], None))
    (seq (case dbSwitcher (node_frontmatter node) of
            Some ds \<Rightarrow>
              (if langSwitcher (node_frontmatter node) = None
               then for_each (\<lambda>db. db_page cwd node db) ds
               else ([], None))
          | None \<Rightarrow> ([], None))
         ([base_page cwd node], None))"

text \<open>
  The promise machinery. The promise of \<open>graphql(...)\<close> settles one way or the other;
  \<open>.then(callback)\<close> runs the callback only on fulfilment. The promise that
  \<open>createPages\<close> returns is settled only by a call of \<open>resolve\<close> or \<open>reject\<close> from
  inside the executor; a rejection of the promise made by \<open>.then\<close> has no handler and
  is recorded as unhandled.
\<close>

record query_result =
  data :: "mdx_node list option"

datatype settlement = Fulfils query_result | Rejects error

datatype promise = Pending | Resolved | Rejected error

record outcome =
  created :: "page list"
  returned :: promise
  unhandled :: "error option"

definition createPages :: "string \<Rightarrow> settlement \<Rightarrow> outcome" where
  "createPages cwd query =
     (case query of
        Rejects e \<Rightarrow> \<lparr>created = [], returned = Pending, unhandled = Some e\<rparr>
      | Fulfils result \<Rightarrow>
          (case data result of
             None \<Rightarrow> \<lparr>created = [], returned = Pending, unhandled = Some TypeError\<rparr>
           | Some edges \<Rightarrow>
               (case for_each (node_pages cwd) edges of
                  (ps, Some e) \<Rightarrow> \<lparr>created = ps, returned = Pending, unhandled = Some e\<rparr>
                | (ps, None) \<Rightarrow> \<lparr>created = ps, returned = Resolved, unhandled = None\<rparr>)))"

section \<open>onCreateWebpackConfig\<close>

record webpack_resolve =
  resolve_modules :: "string list"
  resolve_alias :: "(string \<times> string) list"

definition onCreateWebpackConfig :: "string \<Rightarrow> webpack_resolve" where
  "onCreateWebpackConfig dirname =
     \<lparr>resolve_modules = [path_resolve dirname ''src'', ''node_modules''],
      resolve_alias = [(''$components'', path_resolve dirname ''src/components''),
               (''buble'', ''@philpl/buble'')]\<rparr>"

section \<open>Auxiliary lemmas\<close>

lemma backtrack_None:
  "(\<forall>i. 1 \<le> i \<and> i \<le> k \<longrightarrow> \<not> (i < length s \<and> s ! i = CHR ''-'')) \<Longrightarrow> backtrack k s = None"
  by (induction k) auto

lemma not_digit_hyphen: "\<not> is_digit CHR ''-''"
  by (simp add: is_digit_def)

lemma match_here_run:
  assumes "ds \<noteq> []" "\<forall>c\<in>set ds. is_digit c"
  shows "match_here (ds @ CHR ''-'' # r) = Some (Suc (length ds))"
proof -
  have tw: "takeWhile is_digit (ds @ CHR ''-'' # r) = ds"
    using assms(2) by (simp add: not_digit_hyphen)
  obtain k where k: "length ds = Suc k" using assms(1) by (cases ds) auto
  show ?thesis unfolding match_here_def tw k
    using k by (simp add: nth_append)
qed

lemma match_here_None:
  assumes "\<not> (\<exists>r. dropWhile is_digit s = CHR ''-'' # r) \<or> takeWhile is_digit s = []"
  shows "match_here s = None"
  unfolding match_here_def
proof (rule backtrack_None, intro allI impI notI)
  fix i
  assume i: "1 \<le> i \<and> i \<le> length (takeWhile is_digit s)" and h: "i < length s \<and> s ! i = CHR ''-''"
  show False
  proof (cases "i < length (takeWhile is_digit s)")
    case True
    then have "is_digit (s ! i)"
      by (metis nth_mem set_takeWhileD takeWhile_nth)
    with h show False by (simp add: not_digit_hyphen)
  next
    case False
    with i have e: "i = length (takeWhile is_digit s)" by simp
    then have "dropWhile is_digit s = drop i s" by (simp add: dropWhile_eq_drop)
    also have "\<dots> = s ! i # drop (Suc i) s" using h by (metis Cons_nth_drop_Suc)
    finally have "\<exists>r. dropWhile is_digit s = CHR ''-'' # r" using h by simp
    moreover have "takeWhile is_digit s \<noteq> []" using i by auto
    ultimately show False using assms by blast
  qed
qed

lemma replace_from_skip: "replace_from (length xs + k) (xs @ ys) = replace_from k ys"
  by (induction xs) auto

lemma strip_numeric_Nil: "strip_numeric [] = []"
  by (simp add: strip_numeric_def)

lemma strip_numeric_run:
  assumes "ds \<noteq> []" "\<forall>c\<in>set ds. is_digit c"
  shows "strip_numeric (ds @ CHR ''-'' # r) = strip_numeric r"
proof -
  obtain d ds' where ds: "ds = d # ds'" using assms(1) by (cases ds) auto
  have "replace_from 0 (ds @ CHR ''-'' # r) = replace_from (length ds) (ds' @ CHR ''-'' # r)"
    using match_here_run [OF assms, of r] by (simp add: ds)
  also have "\<dots> = replace_from (length ds' + 1) (ds' @ CHR ''-'' # r)" by (simp add: ds)
  also have "\<dots> = replace_from 1 (CHR ''-'' # r)" by (rule replace_from_skip)
  finally show ?thesis by (simp add: strip_numeric_def)
qed

lemma strip_numeric_keep:
  assumes "\<not> (\<exists>r. dropWhile is_digit (c # cs) = CHR ''-'' # r) \<or> \<not> is_digit c"
  shows "strip_numeric (c # cs) = c # strip_numeric cs"
proof -
  have "match_here (c # cs) = None"
    using assms by (intro match_here_None) auto
  then show ?thesis by (simp add: strip_numeric_def)
qed

lemma strip_numeric_append:
  "pre = [] \<or> \<not> is_digit (last pre) \<Longrightarrow>
   strip_numeric (pre @ rest) = strip_numeric pre @ strip_numeric rest"
proof (induction pre rule: length_induct)
  case (1 pre)
  show ?case
  proof (cases pre)
    case Nil
    then show ?thesis by (simp add: strip_numeric_Nil)
  next
    case (Cons c cs)
    with 1(2) have nd: "\<not> is_digit (last pre)" by simp
    have lastin: "last pre \<in> set pre" using Cons by simp
    have dw: "dropWhile is_digit (pre @ rest) = dropWhile is_digit pre @ rest"
      using nd lastin by (intro dropWhile_append1) auto
    have dne: "dropWhile is_digit pre \<noteq> []"
      using nd lastin by (auto simp: dropWhile_eq_Nil_conv)
    have tail: "strip_numeric (cs @ rest) = strip_numeric cs @ strip_numeric rest"
    proof (cases cs)
      case Nil
      then show ?thesis by (simp add: strip_numeric_Nil)
    next
      case (Cons a list)
      then have "last cs = last pre" using \<open>pre = c # cs\<close> by simp
      then show ?thesis using 1(1) nd \<open>pre = c # cs\<close> by simp
    qed
    show ?thesis
    proof (cases "is_digit c \<and> (\<exists>r. dropWhile is_digit pre = CHR ''-'' # r)")
      case True
      then obtain r where r: "dropWhile is_digit pre = CHR ''-'' # r" by blast
      define ds where "ds = takeWhile is_digit pre"
      have pre: "pre = ds @ CHR ''-'' # r"
        unfolding ds_def using r takeWhile_dropWhile_id [of is_digit pre] by simp
      have dsne: "ds \<noteq> []" unfolding ds_def using True Cons by simp
      have dsd: "\<forall>c\<in>set ds. is_digit c" unfolding ds_def by (auto dest: set_takeWhileD)
      have rlast: "r = [] \<or> \<not> is_digit (last r)"
        using nd pre by (cases r) auto
      have rlen: "length r < length pre" using pre by simp
      have "strip_numeric (pre @ rest) = strip_numeric (ds @ CHR ''-'' # (r @ rest))"
        using pre by simp
      also have "\<dots> = strip_numeric (r @ rest)" by (rule strip_numeric_run [OF dsne dsd])
      also have "\<dots> = strip_numeric r @ strip_numeric rest"
        using 1(1) rlen rlast by blast
      also have "strip_numeric r = strip_numeric pre"
        using strip_numeric_run [OF dsne dsd, of r] pre by simp
      finally show ?thesis .
    next
      case False
      then have k1: "strip_numeric (c # cs @ rest) = c # strip_numeric (cs @ rest)"
        using dw dne Cons by (intro strip_numeric_keep) (auto simp: neq_Nil_conv)
      from False have k2: "strip_numeric (c # cs) = c # strip_numeric cs"
        using Cons by (intro strip_numeric_keep) auto
      show ?thesis using k1 k2 tail Cons by simp
    qed
  qed
qed

lemma for_each_total:
  "(\<And>x. x \<in> set xs \<Longrightarrow> f x = (g x, None)) \<Longrightarrow> for_each f xs = (concat (map g xs), None)"
  by (induction xs) auto

lemma for_each_singletons:
  "(\<And>x. x \<in> set xs \<Longrightarrow> f x = ([g x], None)) \<Longrightarrow> for_each f xs = (map g xs, None)"
  by (induction xs) auto

lemma create_variant_Str:
  "fields_slug n = Str s \<Longrightarrow>
   create_variant cwd n suffix lang db =
     ([\<lparr>path = strip_numeric s @ suffix, component = articleLayout cwd, ctx_id = fields_id n,
        seoTitle = getTitle (node_frontmatter n) lang db,
        seoDescription = getDesc (node_frontmatter n) lang db\<rparr>], None)"
  by (simp add: create_variant_def slug_replace_def)

lemma map_product:
  "map F (List.product xs ys) = concat (map (\<lambda>x. map (\<lambda>y. F (x, y)) ys) xs)"
  by (induction xs) auto

lemma find_first:
  "P e \<Longrightarrow> \<forall>x\<in>set pre. \<not> P x \<Longrightarrow> find P (pre @ e # post) = Some e"
  by (induction pre) auto

lemma find_none: "\<forall>x\<in>set xs. \<not> P x \<Longrightarrow> find P xs = None"
  by (simp add: find_None_iff)

lemma seq_None:
  "snd (seq a b) = None \<Longrightarrow> snd a = None \<and> snd b = None \<and> fst (seq a b) = fst a @ fst b"
  by (cases a; cases b; cases "snd a") auto

lemma snd_seq_None: "snd a = None \<Longrightarrow> snd b = None \<Longrightarrow> snd (seq a b) = None"
  by (cases a; cases b) auto

lemma snd_for_each_None:
  "(\<And>x. x \<in> set xs \<Longrightarrow> snd (f x) = None) \<Longrightarrow> snd (for_each f xs) = None"
  by (induction xs) (auto intro: snd_seq_None)

text \<open>
  A node whose slug field is a string never makes the loop body throw, and then the hook
  creates the pages of every node, in order, and resolves its promise. \<open>onCreateNode\<close>
  gives every Mdx node such a slug.
\<close>

lemma node_pages_no_throw:
  assumes "fields_slug n = Str s"
  shows "snd (node_pages cwd n) = None"
  unfolding node_pages_def
  by (intro snd_seq_None snd_for_each_None)
     (auto simp: lang_db_page_def lang_page_def db_page_def create_variant_Str [OF assms]
           split: option.splits intro!: snd_for_each_None)

lemma createPages_fulfilled:
  assumes "\<forall>n\<in>set edges. \<exists>s. fields_slug n = Str s"
  shows "createPages cwd (Fulfils \<lparr>data = Some edges\<rparr>) =
           \<lparr>created = concat (map (\<lambda>n. fst (node_pages cwd n)) edges),
            returned = Resolved, unhandled = None\<rparr>"
proof -
  have "for_each (node_pages cwd) edges = (concat (map (\<lambda>n. fst (node_pages cwd n)) edges), None)"
  proof (rule for_each_total)
    fix n assume "n \<in> set edges"
    then obtain s where "fields_slug n = Str s" using assms by blast
    then have "snd (node_pages cwd n) = None" by (rule node_pages_no_throw)
    then show "node_pages cwd n = (fst (node_pages cwd n), None)"
      by (metis prod.collapse)
  qed
  then show ?thesis by (simp add: createPages_def)
qed

text \<open>
  When the relative path ends with the extension and the extension string occurs nowhere
  earlier in it, \<open>replace\<close> removes exactly the extension.
\<close>

lemma replace_first_suffix:
  assumes "\<forall>i<length stem. take (length e) (drop i (stem @ e)) \<noteq> e"
  shows "replace_first e (stem @ e) = stem"
  using assms
proof (induction stem)
  case Nil
  then show ?case by (cases e) auto
next
  case (Cons c cs)
  have "take (length e) (c # cs @ e) \<noteq> e" using Cons.prems by force
  moreover have "\<forall>i<length cs. take (length e) (drop i (cs @ e)) \<noteq> e"
    using Cons.prems by force
  ultimately show ?case using Cons.IH by simp
qed

lemma slug_value_stem:
  assumes "relativePath p = stem @ ext p"
    and "\<forall>i<length stem. take (length (ext p)) (drop i (stem @ ext p)) \<noteq> ext p"
  shows "slug_value p = (if stem = ''index'' then [] else stem)"
  using replace_first_suffix [OF assms(2)] assms(1) by (simp add: slug_value_def)

section \<open>Page fan-out over the variant arrays\<close>

text \<open>
  C1. A node whose frontmatter has a \<open>langSwitcher\<close> array of \<open>N\<close> entries and a
  \<open>dbSwitcher\<close> array of \<open>M\<close> entries gets, before its base page, one page for each
  ordered pair \<open>(lang, db)\<close>, language-major, so \<open>N * M\<close> pages beyond the base page. The
  path of the page for \<open>(lang, db)\<close> is the slug with its numeric prefixes stripped,
  followed by \<open>-lang-db\<close>. The slug field is a string, as \<open>onCreateNode\<close> attaches it.
\<close>

theorem lang_db_fanout:
  assumes "langSwitcher (node_frontmatter n) = Some ls"
    and "dbSwitcher (node_frontmatter n) = Some ds"
    and "fields_slug n = Str s"
  shows "node_pages cwd n =
           (map (\<lambda>(lang, db).
                   \<lparr>path = strip_numeric s @ ''-'' @ tmpl lang @ ''-'' @ tmpl db,
                    component = articleLayout cwd, ctx_id = fields_id n,
                    seoTitle = getTitle (node_frontmatter n) lang db,
                    seoDescription = getDesc (node_frontmatter n) lang db\<rparr>)
                (List.product ls ds)
            @ [base_page cwd n], None)
         \<and> length (fst (node_pages cwd n)) = length ls * length ds + 1"
proof -
  let ?F = "\<lambda>(lang, db).
                   \<lparr>path = strip_numeric s @ ''-'' @ tmpl lang @ ''-'' @ tmpl db,
                    component = articleLayout cwd, ctx_id = fields_id n,
                    seoTitle = getTitle (node_frontmatter n) lang db,
                    seoDescription = getDesc (node_frontmatter n) lang db\<rparr>"
  have inner: "for_each (\<lambda>db. lang_db_page cwd n lang db) ds = (map (\<lambda>db. ?F (lang, db)) ds, None)"
    for lang
    by (rule for_each_singletons) (simp add: lang_db_page_def create_variant_Str [OF assms(3)])
  have outer: "for_each (\<lambda>lang. for_each (\<lambda>db. lang_db_page cwd n lang db) ds) ls
                 = (map ?F (List.product ls ds), None)"
    unfolding map_product by (rule for_each_total) (rule inner)
  have eq: "node_pages cwd n = (map ?F (List.product ls ds) @ [base_page cwd n], None)"
    unfolding node_pages_def using assms(1,2) by (simp add: outer)
  show ?thesis unfolding eq by simp
qed

theorem lang_db_fanout_witness:
  "map path (fst (node_pages ''/site''
      \<lparr>fields_slug = Str ''/01-intro'', fields_id = Str ''n1'',
       node_frontmatter = \<lparr>title = Str ''Intro'', metaTitle = Null, metaDescription = Null,
          langSwitcher = Some [Str ''ts'', Str ''js''], dbSwitcher = Some [Str ''pg'', Str ''mysql''],
          techMetaTitles = None, techMetaDescriptions = None\<rparr>\<rparr>))
     = [''/intro-ts-pg'', ''/intro-ts-mysql'', ''/intro-js-pg'', ''/intro-js-mysql'', ''/intro'']"
  using lang_db_fanout [where cwd = "''/site''" and s = "''/01-intro''"
      and ls = "[Str ''ts'', Str ''js'']" and ds = "[Str ''pg'', Str ''mysql'']"
      and n = "\<lparr>fields_slug = Str ''/01-intro'', fields_id = Str ''n1'',
       node_frontmatter = \<lparr>title = Str ''Intro'', metaTitle = Null, metaDescription = Null,
          langSwitcher = Some [Str ''ts'', Str ''js''], dbSwitcher = Some [Str ''pg'', Str ''mysql''],
          techMetaTitles = None, techMetaDescriptions = None\<rparr>\<rparr>"]
  by (simp add: base_page_def strip_numeric_def match_here_def is_digit_def)

text \<open>
  C6. A node with a \<open>langSwitcher\<close> array and no \<open>dbSwitcher\<close> gets one page per language
  before its base page, with path the stripped slug followed by \<open>-lang\<close>; a node with a
  \<open>dbSwitcher\<close> array and no \<open>langSwitcher\<close> gets one page per database, with path the
  stripped slug followed by \<open>-db\<close>.
\<close>

theorem single_switcher_fanout:
  assumes "fields_slug n = Str s"
  shows "(langSwitcher (node_frontmatter n) = Some ls \<and> dbSwitcher (node_frontmatter n) = None \<longrightarrow>
            node_pages cwd n =
              (map (\<lambda>lang. \<lparr>path = strip_numeric s @ ''-'' @ tmpl lang,
                             component = articleLayout cwd, ctx_id = fields_id n,
                             seoTitle = getTitle (node_frontmatter n) lang Null,
                             seoDescription = getDesc (node_frontmatter n) lang Null\<rparr>) ls
               @ [base_page cwd n], None))
       \<and> (dbSwitcher (node_frontmatter n) = Some ds \<and> langSwitcher (node_frontmatter n) = None \<longrightarrow>
            node_pages cwd n =
              (map (\<lambda>db. \<lparr>path = strip_numeric s @ ''-'' @ tmpl db,
                           component = articleLayout cwd, ctx_id = fields_id n,
                           seoTitle = getTitle (node_frontmatter n) Null db,
                           seoDescription = getDesc (node_frontmatter n) Null db\<rparr>) ds
               @ [base_page cwd n], None))"
proof (intro conjI impI)
  let ?L = "\<lambda>lang. \<lparr>path = strip_numeric s @ ''-'' @ tmpl lang,
                     component = articleLayout cwd, ctx_id = fields_id n,
                     seoTitle = getTitle (node_frontmatter n) lang Null,
                     seoDescription = getDesc (node_frontmatter n) lang Null\<rparr>"
  assume h: "langSwitcher (node_frontmatter n) = Some ls \<and> dbSwitcher (node_frontmatter n) = None"
  have "for_each (\<lambda>lang. lang_page cwd n lang) ls = (map ?L ls, None)"
    by (rule for_each_singletons) (simp add: lang_page_def create_variant_Str [OF assms])
  then show "node_pages cwd n = (map ?L ls @ [base_page cwd n], None)"
    unfolding node_pages_def using h by simp
next
  let ?D = "\<lambda>db. \<lparr>path = strip_numeric s @ ''-'' @ tmpl db,
                   component = articleLayout cwd, ctx_id = fields_id n,
                   seoTitle = getTitle (node_frontmatter n) Null db,
                   seoDescription = getDesc (node_frontmatter n) Null db\<rparr>"
  assume h: "dbSwitcher (node_frontmatter n) = Some ds \<and> langSwitcher (node_frontmatter n) = None"
  have "for_each (\<lambda>db. db_page cwd n db) ds = (map ?D ds, None)"
    by (rule for_each_singletons) (simp add: db_page_def create_variant_Str [OF assms])
  then show "node_pages cwd n = (map ?D ds @ [base_page cwd n], None)"
    unfolding node_pages_def using h by simp
qed

theorem single_switcher_fanout_witness:
  "map path (fst (node_pages ''/site''
      \<lparr>fields_slug = Str ''/02-setup'', fields_id = Str ''n2'',
       node_frontmatter = \<lparr>title = Str ''Setup'', metaTitle = Null, metaDescription = Null,
          langSwitcher = Some [Str ''ts'', Str ''js''], dbSwitcher = None,
          techMetaTitles = None, techMetaDescriptions = None\<rparr>\<rparr>))
     = [''/setup-ts'', ''/setup-js'', ''/setup'']
   \<and> map path (fst (node_pages ''/site''
      \<lparr>fields_slug = Str ''/02-setup'', fields_id = Str ''n2'',
       node_frontmatter = \<lparr>title = Str ''Setup'', metaTitle = Null, metaDescription = Null,
          langSwitcher = None, dbSwitcher = Some [Str ''pg'', Str ''mysql'', Str ''sqlite''],
          techMetaTitles = None, techMetaDescriptions = None\<rparr>\<rparr>))
     = [''/setup-pg'', ''/setup-mysql'', ''/setup-sqlite'', ''/setup'']"
  using single_switcher_fanout [where cwd = "''/site''" and s = "''/02-setup''"
      and ls = "[Str ''ts'', Str ''js'']"
      and n = "\<lparr>fields_slug = Str ''/02-setup'', fields_id = Str ''n2'',
       node_frontmatter = \<lparr>title = Str ''Setup'', metaTitle = Null, metaDescription = Null,
          langSwitcher = Some [Str ''ts'', Str ''js''], dbSwitcher = None,
          techMetaTitles = None, techMetaDescriptions = None\<rparr>\<rparr>"]
    single_switcher_fanout [where cwd = "''/site''" and s = "''/02-setup''"
      and ds = "[Str ''pg'', Str ''mysql'', Str ''sqlite'']"
      and n = "\<lparr>fields_slug = Str ''/02-setup'', fields_id = Str ''n2'',
       node_frontmatter = \<lparr>title = Str ''Setup'', metaTitle = Null, metaDescription = Null,
          langSwitcher = None, dbSwitcher = Some [Str ''pg'', Str ''mysql'', Str ''sqlite''],
          techMetaTitles = None, techMetaDescriptions = None\<rparr>\<rparr>"]
  by (simp add: base_page_def strip_numeric_def match_here_def is_digit_def)

section \<open>SEO title and description\<close>

text \<open>
  C2. For a variant page, that is when \<open>lang\<close> or \<open>db\<close> is present (truthy), the key is
  \<open>lang-db\<close> when both are present and the present one alone otherwise. The SEO title is
  the value of the first entry of \<open>techMetaTitles\<close> whose name equals the key; when the
  list is absent or no entry has that name, it is the page default
  \<open>metaTitle || title\<close>. The SEO description is resolved in the same way from
  \<open>techMetaDescriptions\<close>, with default \<open>metaDescription || title\<close>.
\<close>

theorem variant_meta_lookup:
  assumes "truthy lang \<or> truthy db"
  shows "queryParam lang db =
           (if truthy lang \<and> truthy db then tmpl lang @ ''-'' @ tmpl db
            else if truthy lang then tmpl lang else tmpl db)
       \<and> (techMetaTitles fm = Some (tpre @ te # tpost) \<and> tm_name te = Str (queryParam lang db)
              \<and> (\<forall>x\<in>set tpre. tm_name x \<noteq> Str (queryParam lang db))
            \<longrightarrow> getTitle fm lang db = tm_value te)
       \<and> ((case techMetaTitles fm of
              None \<Rightarrow> True
            | Some items \<Rightarrow> \<forall>x\<in>set items. tm_name x \<noteq> Str (queryParam lang db))
            \<longrightarrow> getTitle fm lang db = js_or (metaTitle fm) (title fm))
       \<and> (techMetaDescriptions fm = Some (dpre @ de # dpost) \<and> tm_name de = Str (queryParam lang db)
              \<and> (\<forall>x\<in>set dpre. tm_name x \<noteq> Str (queryParam lang db))
            \<longrightarrow> getDesc fm lang db = tm_value de)
       \<and> ((case techMetaDescriptions fm of
              None \<Rightarrow> True
            | Some items \<Rightarrow> \<forall>x\<in>set items. tm_name x \<noteq> Str (queryParam lang db))
            \<longrightarrow> getDesc fm lang db = js_or (metaDescription fm) (title fm))"
proof (intro conjI impI)
  show "queryParam lang db =
           (if truthy lang \<and> truthy db then tmpl lang @ ''-'' @ tmpl db
            else if truthy lang then tmpl lang else tmpl db)"
    using assms by (auto simp: queryParam_def)
next
  assume "techMetaTitles fm = Some (tpre @ te # tpost) \<and> tm_name te = Str (queryParam lang db)
              \<and> (\<forall>x\<in>set tpre. tm_name x \<noteq> Str (queryParam lang db))"
  then show "getTitle fm lang db = tm_value te"
    using assms by (simp add: getTitle_def find_first)
next
  assume "case techMetaTitles fm of
              None \<Rightarrow> True
            | Some items \<Rightarrow> \<forall>x\<in>set items. tm_name x \<noteq> Str (queryParam lang db)"
  then show "getTitle fm lang db = js_or (metaTitle fm) (title fm)"
    using assms by (auto simp: getTitle_def find_none split: option.splits)
next
  assume "techMetaDescriptions fm = Some (dpre @ de # dpost) \<and> tm_name de = Str (queryParam lang db)
              \<and> (\<forall>x\<in>set dpre. tm_name x \<noteq> Str (queryParam lang db))"
  then show "getDesc fm lang db = tm_value de"
    using assms by (simp add: getDesc_def find_first)
next
  assume "case techMetaDescriptions fm of
              None \<Rightarrow> True
            | Some items \<Rightarrow> \<forall>x\<in>set items. tm_name x \<noteq> Str (queryParam lang db)"
  then show "getDesc fm lang db = js_or (metaDescription fm) (title fm)"
    using assms by (auto simp: getDesc_def find_none split: option.splits)
qed

theorem variant_meta_lookup_witness:
  "getTitle \<lparr>title = Str ''Intro'', metaTitle = Null, metaDescription = Str ''About'',
             langSwitcher = Some [Str ''node''], dbSwitcher = Some [Str ''pg''],
             techMetaTitles = Some [\<lparr>tm_name = Str ''node'', tm_value = Str ''Node''\<rparr>,
                                    \<lparr>tm_name = Str ''node-pg'', tm_value = Str ''Node and PG''\<rparr>,
                                    \<lparr>tm_name = Str ''node-pg'', tm_value = Str ''later''\<rparr>],
             techMetaDescriptions = None\<rparr> (Str ''node'') (Str ''pg'') = Str ''Node and PG''
   \<and> getDesc \<lparr>title = Str ''Intro'', metaTitle = Null, metaDescription = Str ''About'',
             langSwitcher = Some [Str ''node''], dbSwitcher = Some [Str ''pg''],
             techMetaTitles = Some [\<lparr>tm_name = Str ''node'', tm_value = Str ''Node''\<rparr>,
                                    \<lparr>tm_name = Str ''node-pg'', tm_value = Str ''Node and PG''\<rparr>,
                                    \<lparr>tm_name = Str ''node-pg'', tm_value = Str ''later''\<rparr>],
             techMetaDescriptions = None\<rparr> (Str ''node'') (Str ''pg'') = Str ''About''"
  using variant_meta_lookup [of "Str ''node''" "Str ''pg''"
      "\<lparr>title = Str ''Intro'', metaTitle = Null, metaDescription = Str ''About'',
             langSwitcher = Some [Str ''node''], dbSwitcher = Some [Str ''pg''],
             techMetaTitles = Some [\<lparr>tm_name = Str ''node'', tm_value = Str ''Node''\<rparr>,
                                    \<lparr>tm_name = Str ''node-pg'', tm_value = Str ''Node and PG''\<rparr>,
                                    \<lparr>tm_name = Str ''node-pg'', tm_value = Str ''later''\<rparr>],
             techMetaDescriptions = None\<rparr>"
      "[\<lparr>tm_name = Str ''node'', tm_value = Str ''Node''\<rparr>]"
      "\<lparr>tm_name = Str ''node-pg'', tm_value = Str ''Node and PG''\<rparr>"
      "[\<lparr>tm_name = Str ''node-pg'', tm_value = Str ''later''\<rparr>]"]
  by (simp add: js_or_def queryParam_def)

text \<open>
  C9. The base page of a node is created with \<open>getTitle\<close> and \<open>getDesc\<close> called without
  \<open>lang\<close> and \<open>db\<close>: its SEO title is \<open>metaTitle || title\<close> and its SEO description is
  \<open>metaDescription || title\<close>, so a node without a meta description gets its title as
  description. Replacing the two override tables by any others leaves the base page as it
  is. Whenever the loop body completes, the base page is the last page it created.
\<close>

theorem base_page_meta_defaults:
  "seoTitle (base_page cwd n) = js_or (metaTitle (node_frontmatter n)) (title (node_frontmatter n))
   \<and> seoDescription (base_page cwd n)
       = js_or (metaDescription (node_frontmatter n)) (title (node_frontmatter n))
   \<and> (\<not> truthy (metaDescription (node_frontmatter n)) \<longrightarrow>
        seoDescription (base_page cwd n) = title (node_frontmatter n))
   \<and> base_page cwd (n\<lparr>node_frontmatter :=
                        (node_frontmatter n)\<lparr>techMetaTitles := t, techMetaDescriptions := d\<rparr>\<rparr>)
       = base_page cwd n
   \<and> (snd (node_pages cwd n) = None \<longrightarrow>
        fst (node_pages cwd n) \<noteq> [] \<and> last (fst (node_pages cwd n)) = base_page cwd n)"
proof (intro conjI impI)
  assume "snd (node_pages cwd n) = None"
  then show "fst (node_pages cwd n) \<noteq> []" "last (fst (node_pages cwd n)) = base_page cwd n"
    unfolding node_pages_def by (auto dest!: seq_None)
qed (simp_all add: base_page_def getTitle_def getDesc_def js_or_def)

theorem base_page_meta_defaults_witness:
  "seoDescription (base_page ''/site''
      \<lparr>fields_slug = Str ''/01-intro'', fields_id = Str ''n1'',
       node_frontmatter = \<lparr>title = Str ''Intro'', metaTitle = Str ''Meta'', metaDescription = Null,
          langSwitcher = Some [Str ''node''], dbSwitcher = None,
          techMetaTitles = Some [\<lparr>tm_name = Str '''', tm_value = Str ''X''\<rparr>],
          techMetaDescriptions = Some [\<lparr>tm_name = Str '''', tm_value = Str ''Y''\<rparr>]\<rparr>\<rparr>) = Str ''Intro''
   \<and> last (fst (node_pages ''/site''
      \<lparr>fields_slug = Str ''/01-intro'', fields_id = Str ''n1'',
       node_frontmatter = \<lparr>title = Str ''Intro'', metaTitle = Str ''Meta'', metaDescription = Null,
          langSwitcher = Some [Str ''node''], dbSwitcher = None,
          techMetaTitles = Some [\<lparr>tm_name = Str '''', tm_value = Str ''X''\<rparr>],
          techMetaDescriptions = Some [\<lparr>tm_name = Str '''', tm_value = Str ''Y''\<rparr>]\<rparr>\<rparr>))
      = \<lparr>path = ''/intro'', component = ''/site/src/layouts/articleLayout.tsx'',
         ctx_id = Str ''n1'', seoTitle = Str ''Meta'', seoDescription = Str ''Intro''\<rparr>"
  using base_page_meta_defaults [of "''/site''"
      "\<lparr>fields_slug = Str ''/01-intro'', fields_id = Str ''n1'',
       node_frontmatter = \<lparr>title = Str ''Intro'', metaTitle = Str ''Meta'', metaDescription = Null,
          langSwitcher = Some [Str ''node''], dbSwitcher = None,
          techMetaTitles = Some [\<lparr>tm_name = Str '''', tm_value = Str ''X''\<rparr>],
          techMetaDescriptions = Some [\<lparr>tm_name = Str '''', tm_value = Str ''Y''\<rparr>]\<rparr>\<rparr>"]
  by (simp add: node_pages_def base_page_def lang_page_def create_variant_def slug_replace_def
      strip_numeric_def match_here_def is_digit_def articleLayout_def path_resolve_def
      getTitle_def getDesc_def js_or_def queryParam_def)

section \<open>Numeric prefixes\<close>

text \<open>
  C10. The replacement of \<open>/\d+-/g\<close> by the empty string removes a run of digits followed
  by a hyphen wherever it stands in the slug: whatever precedes the run (provided the run
  is maximal, that is not itself preceded by a digit) and whatever follows it, the result
  is what stripping gives for the text before the run followed by what it gives for the
  text after it. Nothing ties the run to the start of a path segment.
\<close>

theorem strip_numeric_removes_runs:
  assumes "ds \<noteq> []" and "\<forall>c\<in>set ds. is_digit c" and "pre = [] \<or> \<not> is_digit (last pre)"
  shows "strip_numeric (pre @ ds @ ''-'' @ post) = strip_numeric pre @ strip_numeric post"
  using strip_numeric_append [OF assms(3), of "ds @ ''-'' @ post"]
    strip_numeric_run [OF assms(1,2), of post] by simp

theorem strip_numeric_removes_runs_witness:
  "strip_numeric ''/guide/v12-beta'' = ''/guide/vbeta''"
  using strip_numeric_removes_runs [of "''12''" "''/guide/v''" "''beta''"]
  by (simp add: is_digit_def strip_numeric_def match_here_def)

section \<open>Node fields\<close>

text \<open>
  C5. For an Mdx node whose parent file is known, \<open>onCreateNode\<close> makes exactly two
  \<open>createNodeField\<close> calls on that node: the field \<open>slug\<close> with the derived value behind
  a \<open>/\<close>, then the field \<open>id\<close> with the node's own id.
\<close>

theorem onCreateNode_attaches_slug_and_id:
  assumes "internal_type node = ''Mdx''" and "getNode (node_parent node) = Some parent"
  shows "onCreateNode node getNode =
           Inr [CreateNodeField (node_id node) ''slug'' (CHR ''/'' # slug_value parent),
                CreateNodeField (node_id node) ''id'' (node_id node)]"
  using assms by (simp add: onCreateNode_def)

theorem onCreateNode_attaches_slug_and_id_witness:
  "onCreateNode \<lparr>node_id = ''n1'', node_parent = ''f1'', internal_type = ''Mdx''\<rparr>
     [''f1'' \<mapsto> \<lparr>relativePath = ''01-intro/02-setup.mdx'', ext = ''.mdx''\<rparr>]
   = Inr [CreateNodeField ''n1'' ''slug'' ''/01-intro/02-setup'',
          CreateNodeField ''n1'' ''id'' ''n1'']"
  using onCreateNode_attaches_slug_and_id
    [of "\<lparr>node_id = ''n1'', node_parent = ''f1'', internal_type = ''Mdx''\<rparr>"
        "[''f1'' \<mapsto> \<lparr>relativePath = ''01-intro/02-setup.mdx'', ext = ''.mdx''\<rparr>]"
        "\<lparr>relativePath = ''01-intro/02-setup.mdx'', ext = ''.mdx''\<rparr>"]
  by (simp add: slug_value_def)

text \<open>
  C8. For a node whose internal type is anything but \<open>Mdx\<close>, \<open>onCreateNode\<close> makes no
  \<open>createNodeField\<close> call and does not fail, whatever \<open>getNode\<close> would answer.
\<close>

theorem onCreateNode_other_types:
  assumes "internal_type node \<noteq> ''Mdx''"
  shows "onCreateNode node getNode = Inr []"
  using assms by (simp add: onCreateNode_def)

theorem onCreateNode_other_types_witness:
  "onCreateNode \<lparr>node_id = ''f1'', node_parent = '''', internal_type = ''File''\<rparr> Map.empty = Inr []"
  using onCreateNode_other_types
    [of "\<lparr>node_id = ''f1'', node_parent = '''', internal_type = ''File''\<rparr>" Map.empty]
  by simp

text \<open>
  C3. The slug value is meant to be the relative path without its file extension. The
  code removes the first occurrence of the extension string, wherever it stands: for the
  file \<open>intro.mdx\<close> in the directory \<open>a.mdx-notes\<close> the occurrence inside the directory
  name is removed and the extension stays, in the slug value and in the path of the page
  created from it.
\<close>

theorem slug_extension_first_occurrence:
  "slug_value \<lparr>relativePath = ''a.mdx-notes/intro.mdx'', ext = ''.mdx''\<rparr> = ''a-notes/intro.mdx''
   \<and> path (base_page ''/site''
        \<lparr>fields_slug = Str (''/'' @ slug_value \<lparr>relativePath = ''a.mdx-notes/intro.mdx'', ext = ''.mdx''\<rparr>),
         fields_id = Str ''n1'',
         node_frontmatter = \<lparr>title = Str ''Intro'', metaTitle = Null, metaDescription = Null,
           langSwitcher = None, dbSwitcher = None,
           techMetaTitles = None, techMetaDescriptions = None\<rparr>\<rparr>) = ''/a-notes/intro.mdx''"
  by (simp add: slug_value_def base_page_def strip_numeric_def match_here_def is_digit_def)

section \<open>A failing content query\<close>

text \<open>
  C4. When the promise of the content query is rejected, no page is created, but the
  promise that \<open>createPages\<close> returned is left pending: the executor never calls
  \<open>reject\<close>, and no settlement of the query makes the returned promise rejected.
\<close>

theorem query_rejection_leaves_promise_pending:
  "createPages cwd (Rejects e) = \<lparr>created = [], returned = Pending, unhandled = Some e\<rparr>
   \<and> returned (createPages cwd q) \<noteq> Rejected e'"
  by (simp add: createPages_def split: settlement.splits option.splits prod.splits)

section \<open>Webpack configuration\<close>

text \<open>
  C7. The configuration handed to \<open>setWebpackConfig\<close> has two alias entries,
  \<open>$components\<close> for the directory \<open>src/components\<close> and \<open>buble\<close> for \<open>@philpl/buble\<close>,
  and its module resolution paths are the \<open>src\<close> directory followed by \<open>node_modules\<close>.
\<close>

theorem webpack_config_registers:
  "map fst (resolve_alias (onCreateWebpackConfig dirname)) = [''$components'', ''buble'']
   \<and> map_of (resolve_alias (onCreateWebpackConfig dirname)) ''$components''
       = Some (path_resolve dirname ''src/components'')
   \<and> map_of (resolve_alias (onCreateWebpackConfig dirname)) ''buble'' = Some ''@philpl/buble''
   \<and> resolve_modules (onCreateWebpackConfig dirname) = [path_resolve dirname ''src'', ''node_modules'']"
  by (simp add: onCreateWebpackConfig_def)

end
